theory Spec2Isabelle
  imports Main "HOL-Library.Word"
begin

unbundle bit_operations_syntax

section \<open>The LCD8574 driver (src/lcd8574.c) as HOL functions\<close>

subsection \<open>Types and the I/O trace\<close>

text \<open>
  Modelled from the spec: the header defs.h is not among the sources, so the two types
  it declares are fixed here. \<open>BYTE\<close> is an unsigned 8-bit quantity (the PCF8574 has
  eight outputs and the driver writes one \<open>BYTE\<close> per \<open>write\<close> call); \<open>BOOL\<close> is a C
  truth value (zero or non-zero), modelled as \<open>bool\<close>.

  The C \<open>int\<close> arguments (rows, columns, file descriptors) are modelled as \<open>int\<close>.
  The only place where an \<open>int\<close> is narrowed is the implicit conversion of
  \<open>CMD_SET_DDRAM_ADDR | addr\<close> to the \<open>BYTE\<close> parameter of \<open>lcd8574_send_byte\<close>;
  it is written out as \<open>word_of_int\<close>, which keeps the low eight bits. Those bits of
  \<open>row * 64 + col\<close> are the same whether the product is taken in \<open>int\<close> or wraps around
  at 32 bits. The \<open>assert (self != NULL)\<close> of \<open>lcd8574_init\<close> and \<open>lcd8574_uninit\<close>
  holds by typing: they take the object, not a pointer that may be null.
\<close>

type_synonym BYTE = "8 word"

text \<open>
  Every call into the operating system that the driver makes is an event; a function
  that performs I/O returns the list of its events in program order.
\<close>

datatype event =
    Open string
  | Ioctl int int
  | Write int BYTE
  | Usleep nat
  | Close int
  | Free

text \<open>\<open>struct _LCD8574\<close>.\<close>

record LCD8574 =
  i2c_addr :: int
  fd :: int
  rows :: int
  cols :: int
  ready :: bool

subsection \<open>Constants\<close>

definition PIN_RS :: int where "PIN_RS = 0"
definition PIN_RW :: int where "PIN_RW = 1"
definition PIN_E :: int where "PIN_E = 2"
definition PIN_LED :: int where "PIN_LED = 3"
definition PIN_D4 :: int where "PIN_D4 = 4"
definition PIN_D5 :: int where "PIN_D5 = 5"
definition PIN_D6 :: int where "PIN_D6 = 6"
definition PIN_D7 :: int where "PIN_D7 = 7"

definition CMD_CLEAR :: int where "CMD_CLEAR = 0x01"
definition CMD_CTRL :: int where "CMD_CTRL = 0x08"
definition CMD_FUNC :: int where "CMD_FUNC = 0x20"
definition CMD_SET_DDRAM_ADDR :: int where "CMD_SET_DDRAM_ADDR = 0x80"

definition LCD_FUNC_N :: int where "LCD_FUNC_N = 0x08"
definition LCD_FUNC_DL :: int where "LCD_FUNC_DL = 0x10"

definition LCD_CHARS_PER_ROW :: int where "LCD_CHARS_PER_ROW = 64"

definition I2C_DEV :: string where "I2C_DEV = ''/dev/i2c-1''"

text \<open>From lcd8574.h.\<close>

definition LCD_MODE_CURSOR_BLINK :: BYTE where "LCD_MODE_CURSOR_BLINK = 0x01"
definition LCD_MODE_CURSOR_ON :: BYTE where "LCD_MODE_CURSOR_ON = 0x02"
definition LCD_MODE_DISPLAY_ON :: BYTE where "LCD_MODE_DISPLAY_ON = 0x04"

subsection \<open>Construction\<close>

definition lcd8574_create :: "int \<Rightarrow> int \<Rightarrow> int \<Rightarrow> LCD8574" where
  "lcd8574_create addr r c =
     \<lparr>i2c_addr = addr, fd = - 1, rows = r, cols = c, ready = False\<rparr>"

subsection \<open>Nibble and byte transactions\<close>

text \<open>
  \<open>ret |= (1 << bit)\<close> and \<open>ret &= ~(1 << bit)\<close>; the pin numbers are 0..7, so the
  shift stays inside the byte.
\<close>

definition lcd8574_set_bit_value :: "BYTE \<Rightarrow> int \<Rightarrow> bool \<Rightarrow> BYTE" where
  "lcd8574_set_bit_value b pin val =
     (if val then b OR push_bit (nat pin) 1 else b AND NOT (push_bit (nat pin) 1))"

definition lcd8574_send_4_bits :: "LCD8574 \<Rightarrow> bool \<Rightarrow> BYTE \<Rightarrow> event list" where
  "lcd8574_send_4_bits self rs n =
     (let b0 = push_bit 4 n AND 0xF0;
          b1 = (if PIN_LED > 0 then lcd8574_set_bit_value b0 PIN_LED True else b0);
          b2 = lcd8574_set_bit_value b1 PIN_RS rs;
          b3 = lcd8574_set_bit_value b2 PIN_E True;
          b4 = lcd8574_set_bit_value b3 PIN_E False
      in [Write (fd self) b3, Usleep 1000, Write (fd self) b4, Usleep 1000])"

definition lcd8574_send_byte :: "LCD8574 \<Rightarrow> bool \<Rightarrow> BYTE \<Rightarrow> event list" where
  "lcd8574_send_byte self rs n =
     lcd8574_send_4_bits self rs (drop_bit 4 n AND 0x0F) @
     lcd8574_send_4_bits self rs (n AND 0x0F)"

subsection \<open>Addressed writes\<close>

definition lcd8574_write_char_at :: "LCD8574 \<Rightarrow> int \<Rightarrow> int \<Rightarrow> BYTE \<Rightarrow> event list" where
  "lcd8574_write_char_at self row col c =
     (if row < rows self \<and> col < cols self then
        (let addr = row * LCD_CHARS_PER_ROW + col in
           lcd8574_send_byte self False (word_of_int (CMD_SET_DDRAM_ADDR OR addr)) @
           lcd8574_send_byte self True c)
      else [])"

text \<open>
  The \<open>while\<close> loop of \<open>lcd8574_write_string_at\<close>. The argument \<open>s\<close> is the memory
  the pointer refers to, as a list of bytes; \<open>*s\<close> is its head and \<open>s++\<close> its tail.
  A C string ends at its first zero byte; the end of the list stands for the same
  terminator, so \<open>"ab"\<close> is \<open>[0x61, 0x62]\<close> (or \<open>[0x61, 0x62, 0]\<close>) and the literal
  \<open>"\0"\<close> is \<open>[0, 0]\<close>.
\<close>

fun lcd8574_write_string_at_loop ::
  "LCD8574 \<Rightarrow> int \<Rightarrow> int \<Rightarrow> BYTE list \<Rightarrow> bool \<Rightarrow> event list" where
  "lcd8574_write_string_at_loop self row col [] wrap = []"
| "lcd8574_write_string_at_loop self row col (ch # s) wrap =
     (if ch \<noteq> 0 \<and> row < rows self \<and> col < cols self then
        lcd8574_send_byte self True ch @
        (let col1 = col + 1 in
           if col1 \<ge> cols self \<and> wrap then
             (let row2 = row + 1; col2 = 0; addr = row2 * LCD_CHARS_PER_ROW + col2 in
                lcd8574_send_byte self False (word_of_int (CMD_SET_DDRAM_ADDR OR addr)) @
                lcd8574_write_string_at_loop self row2 col2 s wrap)
           else lcd8574_write_string_at_loop self row col1 s wrap)
      else [])"

definition lcd8574_write_string_at ::
  "LCD8574 \<Rightarrow> int \<Rightarrow> int \<Rightarrow> BYTE list \<Rightarrow> bool \<Rightarrow> event list" where
  "lcd8574_write_string_at self row col s wrap =
     (if row < rows self \<and> col < cols self then
        (let addr = row * LCD_CHARS_PER_ROW + col in
           lcd8574_send_byte self False (word_of_int (CMD_SET_DDRAM_ADDR OR addr)) @
           lcd8574_write_string_at_loop self row col s wrap)
      else [])"

definition lcd8574_clear :: "LCD8574 \<Rightarrow> event list" where
  "lcd8574_clear self = lcd8574_send_byte self False (word_of_int CMD_CLEAR)"

definition lcd8574_set_cursor :: "LCD8574 \<Rightarrow> int \<Rightarrow> int \<Rightarrow> event list" where
  "lcd8574_set_cursor self row col = lcd8574_write_string_at self row col [0, 0] True"

definition lcd8574_set_mode :: "LCD8574 \<Rightarrow> BYTE \<Rightarrow> event list" where
  "lcd8574_set_mode self mode = lcd8574_send_byte self False (word_of_int CMD_CTRL OR mode)"

subsection \<open>Initialisation and teardown\<close>

text \<open>
  \<open>lcd8574_init\<close> depends on what the operating system answers. The three extra
  arguments are the value returned by \<open>open\<close>, the value returned by \<open>ioctl\<close> and the
  text \<open>strerror (errno)\<close> yields on the failing path. The result is the \<open>BOOL\<close>
  returned, what \<open>asprintf\<close> stores in \<open>*error\<close> (\<open>None\<close> when it is not called),
  the object afterwards and the I/O performed.
\<close>

definition lcd8574_init ::
  "LCD8574 \<Rightarrow> int \<Rightarrow> int \<Rightarrow> string \<Rightarrow> bool \<times> string option \<times> LCD8574 \<times> event list" where
  "lcd8574_init self open_ret ioctl_ret os_error =
     (let self1 = self\<lparr>fd := open_ret\<rparr> in
        if fd self1 \<ge> 0 then
          if ioctl_ret \<ge> 0 then
            (let func1 = (word_of_int (CMD_FUNC OR LCD_FUNC_DL) :: BYTE);
                 func2 = (word_of_int (CMD_FUNC OR 0) :: BYTE);
                 func3 = (word_of_int (CMD_FUNC OR LCD_FUNC_N) :: BYTE);
                 io = [Open I2C_DEV, Ioctl (fd self1) (i2c_addr self1)] @
                      [Write (fd self1) 0, Usleep 35000] @
                      lcd8574_send_4_bits self1 False (drop_bit 4 func1) @
                      [Usleep 35000] @
                      lcd8574_send_4_bits self1 False (drop_bit 4 func1) @
                      [Usleep 35000] @
                      lcd8574_send_4_bits self1 False (drop_bit 4 func1) @
                      [Usleep 35000] @
                      lcd8574_send_4_bits self1 False (drop_bit 4 func2) @
                      [Usleep 35000] @
                      lcd8574_send_byte self1 False func3 @
                      lcd8574_clear self1 @
                      lcd8574_set_mode self1 LCD_MODE_DISPLAY_ON
             in (True, None, self1\<lparr>ready := True\<rparr>, io))
          else
            (False, Some (''Can't intialize I2C device: '' @ os_error), self1,
             [Open I2C_DEV, Ioctl (fd self1) (i2c_addr self1)])
        else
          (False, Some (''Can't open I2C device: '' @ os_error), self1, [Open I2C_DEV]))"

definition lcd8574_uninit :: "LCD8574 \<Rightarrow> LCD8574 \<times> event list" where
  "lcd8574_uninit self =
     (self\<lparr>ready := False\<rparr>, if fd self \<ge> 0 then [Close (fd self)] else [])"

text \<open>\<open>lcd8574_destroy\<close>: a null pointer is \<open>None\<close>; the object does not outlive the call.\<close>

definition lcd8574_destroy :: "LCD8574 option \<Rightarrow> event list" where
  "lcd8574_destroy p =
     (case p of None \<Rightarrow> [] | Some self \<Rightarrow> snd (lcd8574_uninit self) @ [Free])"

subsection \<open>Observations and fixtures\<close>

text \<open>The bytes that reach the I2C channel, in order: the \<open>write\<close> calls of a trace.\<close>

fun written :: "event list \<Rightarrow> BYTE list" where
  "written [] = []"
| "written (Write f b # es) = b # written es"
| "written (e # es) = written es"

text \<open>
  The controller of main.c (\<open>I2C_ADDR 0x27\<close>, \<open>ROWS 2\<close>, \<open>COLS 16\<close>) after a successful
  \<open>lcd8574_init\<close> in which \<open>open\<close> returned descriptor 3.
\<close>

definition lcd_2x16 :: LCD8574 where
  "lcd_2x16 = \<lparr>i2c_addr = 0x27, fd = 3, rows = 2, cols = 16, ready = True\<rparr>"

text \<open>
  The byte layout in the words of the specification, \<open>[D7 D6 D5 D4 | LED | RS | RW | E]\<close>:
  the nibble in bits 7-4, the backlight at bit 3, register select at bit 2, read/write
  (always 0) at bit 1 and the clock at bit 0; a nibble transaction writes it with the
  clock high and then with the clock low, 1 ms after each. This is the claimed behaviour,
  to be compared with \<open>lcd8574_send_4_bits\<close>.
\<close>

definition spec_nibble_word :: "BYTE \<Rightarrow> bool \<Rightarrow> bool \<Rightarrow> BYTE" where
  "spec_nibble_word n rs e =
     push_bit 4 n OR push_bit 3 1 OR (if rs then push_bit 2 1 else 0) OR (if e then 1 else 0)"

definition spec_send_nibble :: "int \<Rightarrow> bool \<Rightarrow> BYTE \<Rightarrow> event list" where
  "spec_send_nibble f rs n =
     [Write f (spec_nibble_word n rs True), Usleep 1000,
      Write f (spec_nibble_word n rs False), Usleep 1000]"

section \<open>Properties\<close>

lemmas pin_defs = PIN_LED_def PIN_RS_def PIN_E_def PIN_RW_def

lemmas cmd_defs = CMD_CLEAR_def CMD_CTRL_def CMD_FUNC_def CMD_SET_DDRAM_ADDR_def
  LCD_FUNC_N_def LCD_FUNC_DL_def LCD_CHARS_PER_ROW_def LCD_MODE_DISPLAY_ON_def

lemmas io_defs = lcd8574_write_string_at_def lcd8574_write_char_at_def lcd8574_send_byte_def
  lcd8574_send_4_bits_def lcd8574_set_bit_value_def lcd8574_clear_def lcd8574_set_mode_def
  lcd8574_set_cursor_def Let_def

subsection \<open>The nibble transaction\<close>

lemma bit_set_bit_value:
  "bit (lcd8574_set_bit_value b p v) k = (if k = nat p \<and> k < 8 then v else bit b k)"
  by (auto simp add: lcd8574_set_bit_value_def bit_simps dest: bit_imp_le_length)

lemma send_4_bits_unfold:
  "lcd8574_send_4_bits self rs n =
     [Write (fd self)
        (lcd8574_set_bit_value (lcd8574_set_bit_value (lcd8574_set_bit_value
           (push_bit 4 n AND 0xF0) 3 True) 0 rs) 2 True),
      Usleep 1000,
      Write (fd self)
        (lcd8574_set_bit_value (lcd8574_set_bit_value (lcd8574_set_bit_value
           (lcd8574_set_bit_value (push_bit 4 n AND 0xF0) 3 True) 0 rs) 2 True) 2 False),
      Usleep 1000]"
  by (simp add: lcd8574_send_4_bits_def pin_defs Let_def)

text \<open>
  C1, as the code has it. Every nibble transaction is exactly two writes to the channel,
  the first with the clock high and the second with the clock low, each followed by
  \<open>usleep (1000)\<close>, and nothing is written before the clock-high byte. In both bytes the
  nibble is in bits 7-4, the backlight bit 3 is set, bit 1 (RW) is clear; the clock E is
  bit 2 and the register select RS is bit 0 (\<open>PIN_E = 2\<close>, \<open>PIN_RS = 0\<close>), that is the
  layout \<open>[D7 D6 D5 D4 | LED | E | RW | RS]\<close>.
\<close>

theorem send_4_bits_layout:
  "\<exists>hi lo.
     lcd8574_send_4_bits self rs n =
       [Write (fd self) hi, Usleep 1000, Write (fd self) lo, Usleep 1000] \<and>
     bit hi 7 = bit n 3 \<and> bit hi 6 = bit n 2 \<and> bit hi 5 = bit n 1 \<and> bit hi 4 = bit n 0 \<and>
     bit lo 7 = bit n 3 \<and> bit lo 6 = bit n 2 \<and> bit lo 5 = bit n 1 \<and> bit lo 4 = bit n 0 \<and>
     bit hi 3 \<and> bit lo 3 \<and>
     bit hi 2 \<and> \<not> bit lo 2 \<and>
     \<not> bit hi 1 \<and> \<not> bit lo 1 \<and>
     bit hi 0 = rs \<and> bit lo 0 = rs"
  unfolding send_4_bits_unfold
  apply (intro exI conjI)
                   apply (rule refl)
                  apply (simp_all add: bit_set_bit_value bit_simps)
  done

text \<open>
  C1, as the specification words it, fails: for the data nibble 5 the driver writes
  \<open>0x5D\<close> and then \<open>0x59\<close>, where the layout with RS at bit 2 and E at bit 0 gives
  \<open>0x5D\<close> and then \<open>0x5C\<close>. In the clock-low byte bit 0 is still set (it is RS) and bit 2
  is clear (it is E).
\<close>

theorem send_4_bits_spec_layout_counterexample:
  "lcd8574_send_4_bits lcd_2x16 True 5 =
     [Write 3 0x5D, Usleep 1000, Write 3 0x59, Usleep 1000] \<and>
   spec_send_nibble 3 True 5 =
     [Write 3 0x5D, Usleep 1000, Write 3 0x5C, Usleep 1000] \<and>
   lcd8574_send_4_bits lcd_2x16 True 5 \<noteq> spec_send_nibble (fd lcd_2x16) True 5"
  by (simp add: lcd8574_send_4_bits_def lcd8574_set_bit_value_def pin_defs lcd_2x16_def
      spec_send_nibble_def spec_nibble_word_def)

subsection \<open>Writing the clock string\<close>

text \<open>
  C2. On a ready 2 x 16 controller, \<open>write_string_at (0, 0, "12:34:56", wrap = false)\<close>
  is one set-DDRAM-address command byte (\<open>0x80\<close>) followed by the eight characters as
  data bytes; the channel receives exactly the 36 bytes listed; every byte sent is the
  nibble transaction of its high nibble followed by that of its low nibble; and every
  nibble transaction is two channel writes.
\<close>

theorem write_string_at_clock_36_writes:
  "lcd8574_write_string_at \<lparr>i2c_addr = a, fd = f, rows = 2, cols = 16, ready = True\<rparr> 0 0
       [0x31, 0x32, 0x3A, 0x33, 0x34, 0x3A, 0x35, 0x36] False =
     lcd8574_send_byte \<lparr>i2c_addr = a, fd = f, rows = 2, cols = 16, ready = True\<rparr> False 0x80 @
     concat (map (lcd8574_send_byte \<lparr>i2c_addr = a, fd = f, rows = 2, cols = 16, ready = True\<rparr> True)
       [0x31, 0x32, 0x3A, 0x33, 0x34, 0x3A, 0x35, 0x36]) \<and>
   written (lcd8574_write_string_at \<lparr>i2c_addr = a, fd = f, rows = 2, cols = 16, ready = True\<rparr> 0 0
       [0x31, 0x32, 0x3A, 0x33, 0x34, 0x3A, 0x35, 0x36] False) =
     [0x8C, 0x88, 0x0C, 0x08,
      0x3D, 0x39, 0x1D, 0x19,  0x3D, 0x39, 0x2D, 0x29,  0x3D, 0x39, 0xAD, 0xA9,
      0x3D, 0x39, 0x3D, 0x39,  0x3D, 0x39, 0x4D, 0x49,  0x3D, 0x39, 0xAD, 0xA9,
      0x3D, 0x39, 0x5D, 0x59,  0x3D, 0x39, 0x6D, 0x69] \<and>
   length (written (lcd8574_write_string_at
       \<lparr>i2c_addr = a, fd = f, rows = 2, cols = 16, ready = True\<rparr> 0 0
       [0x31, 0x32, 0x3A, 0x33, 0x34, 0x3A, 0x35, 0x36] False)) = 36 \<and>
   lcd8574_send_byte \<lparr>i2c_addr = a, fd = f, rows = 2, cols = 16, ready = True\<rparr> rs b =
     lcd8574_send_4_bits \<lparr>i2c_addr = a, fd = f, rows = 2, cols = 16, ready = True\<rparr> rs
       (drop_bit 4 b AND 0x0F) @
     lcd8574_send_4_bits \<lparr>i2c_addr = a, fd = f, rows = 2, cols = 16, ready = True\<rparr> rs
       (b AND 0x0F) \<and>
   length (written (lcd8574_send_4_bits
       \<lparr>i2c_addr = a, fd = f, rows = 2, cols = 16, ready = True\<rparr> rs n)) = 2"
  by (simp add: io_defs pin_defs cmd_defs)

subsection \<open>Bounds of the addressed writes\<close>

lemma write_at_beyond_upper_bound:
  "rows self \<le> row \<or> cols self \<le> col \<Longrightarrow>
   lcd8574_write_char_at self row col c = [] \<and>
   lcd8574_write_string_at self row col s wrap = []"
  by (auto simp add: lcd8574_write_char_at_def lcd8574_write_string_at_def)

text \<open>
  C5 at the failing input \<open>row = -1\<close>, \<open>col = 0\<close> on the ready 2 x 16 controller. The
  guard \<open>row < self->rows && col < self->cols\<close> has no lower bound, so the negative row
  passes it: \<open>write_char_at\<close> sends the command byte \<open>0xC0\<close> (the low eight bits of
  \<open>0x80 | -64\<close>, the address of row 1) and the character, eight channel writes, and
  \<open>write_string_at\<close> does the same.
\<close>

theorem write_at_negative_row_writes:
  "lcd8574_write_char_at lcd_2x16 (- 1) 0 0x41 =
     lcd8574_send_byte lcd_2x16 False 0xC0 @ lcd8574_send_byte lcd_2x16 True 0x41 \<and>
   written (lcd8574_write_char_at lcd_2x16 (- 1) 0 0x41) =
     [0xCC, 0xC8, 0x0C, 0x08, 0x4D, 0x49, 0x1D, 0x19] \<and>
   written (lcd8574_write_string_at lcd_2x16 (- 1) 0 [0x41] False) =
     [0xCC, 0xC8, 0x0C, 0x08, 0x4D, 0x49, 0x1D, 0x19]"
  by (simp add: io_defs pin_defs cmd_defs lcd_2x16_def)

subsection \<open>Setting the cursor\<close>

lemma set_cursor_in_bounds:
  "row < rows self \<Longrightarrow> col < cols self \<Longrightarrow>
   lcd8574_set_cursor self row col =
     lcd8574_send_byte self False
       (word_of_int (CMD_SET_DDRAM_ADDR OR (row * LCD_CHARS_PER_ROW + col)))"
  by (simp add: lcd8574_set_cursor_def lcd8574_write_string_at_def)

text \<open>
  C3 at the failing input \<open>set_cursor (0, 0)\<close> on the ready 2 x 16 controller. The
  string \<open>"\0"\<close> starts with its terminator, so the loop of \<open>write_string_at\<close> does not run:
  the channel receives the four bytes of the set-DDRAM-address command \<open>0x80\<close> and no data
  byte follows.
\<close>

theorem set_cursor_sends_no_data_byte:
  "lcd8574_set_cursor lcd_2x16 0 0 = lcd8574_send_byte lcd_2x16 False 0x80 \<and>
   written (lcd8574_set_cursor lcd_2x16 0 0) = [0x8C, 0x88, 0x0C, 0x08] \<and>
   lcd8574_set_cursor lcd_2x16 0 0 \<noteq>
     lcd8574_send_byte lcd_2x16 False 0x80 @ lcd8574_send_byte lcd_2x16 True 0"
  by (simp add: io_defs pin_defs cmd_defs lcd_2x16_def)

subsection \<open>Initialisation\<close>

text \<open>
  C6. When \<open>open\<close> and \<open>ioctl\<close> succeed, \<open>lcd8574_init\<close> returns true and performs, in
  this order: the open and the slave-address ioctl; a zero byte and a 35 ms delay; the
  command nibble \<open>0x3\<close> three times and the command nibble \<open>0x2\<close> once, each followed by a
  35 ms delay; the function-set byte \<open>0x28\<close> as the nibbles \<open>0x2\<close>, \<open>0x8\<close>; the clear
  command; the display-on command through \<open>lcd8574_set_mode\<close>. The object returned has
  \<open>ready\<close> set, which is the last assignment of that path. The second conjunct spells
  the same trace out byte by byte.
\<close>

theorem init_success_sequence:
  assumes "0 \<le> open_ret" and "0 \<le> ioctl_ret"
  shows "lcd8574_init self open_ret ioctl_ret os_error =
     (True, None, self\<lparr>fd := open_ret, ready := True\<rparr>,
      [Open ''/dev/i2c-1'', Ioctl open_ret (i2c_addr self),
       Write open_ret 0, Usleep 35000] @
      lcd8574_send_4_bits (self\<lparr>fd := open_ret\<rparr>) False 0x3 @ [Usleep 35000] @
      lcd8574_send_4_bits (self\<lparr>fd := open_ret\<rparr>) False 0x3 @ [Usleep 35000] @
      lcd8574_send_4_bits (self\<lparr>fd := open_ret\<rparr>) False 0x3 @ [Usleep 35000] @
      lcd8574_send_4_bits (self\<lparr>fd := open_ret\<rparr>) False 0x2 @ [Usleep 35000] @
      lcd8574_send_4_bits (self\<lparr>fd := open_ret\<rparr>) False 0x2 @
      lcd8574_send_4_bits (self\<lparr>fd := open_ret\<rparr>) False 0x8 @
      lcd8574_clear (self\<lparr>fd := open_ret\<rparr>) @
      lcd8574_set_mode (self\<lparr>fd := open_ret\<rparr>) LCD_MODE_DISPLAY_ON) \<and>
    snd (snd (snd (lcd8574_init self open_ret ioctl_ret os_error))) =
      [Open ''/dev/i2c-1'', Ioctl open_ret (i2c_addr self),
       Write open_ret 0, Usleep 35000,
       Write open_ret 0x3C, Usleep 1000, Write open_ret 0x38, Usleep 1000, Usleep 35000,
       Write open_ret 0x3C, Usleep 1000, Write open_ret 0x38, Usleep 1000, Usleep 35000,
       Write open_ret 0x3C, Usleep 1000, Write open_ret 0x38, Usleep 1000, Usleep 35000,
       Write open_ret 0x2C, Usleep 1000, Write open_ret 0x28, Usleep 1000, Usleep 35000,
       Write open_ret 0x2C, Usleep 1000, Write open_ret 0x28, Usleep 1000,
       Write open_ret 0x8C, Usleep 1000, Write open_ret 0x88, Usleep 1000,
       Write open_ret 0x0C, Usleep 1000, Write open_ret 0x08, Usleep 1000,
       Write open_ret 0x1C, Usleep 1000, Write open_ret 0x18, Usleep 1000,
       Write open_ret 0x0C, Usleep 1000, Write open_ret 0x08, Usleep 1000,
       Write open_ret 0xCC, Usleep 1000, Write open_ret 0xC8, Usleep 1000]"
  using assms by (simp add: lcd8574_init_def io_defs pin_defs cmd_defs I2C_DEV_def)

theorem init_success_sequence_witness:
  "(0::int) \<le> 3 \<and> (0::int) \<le> 0 \<and>
   fst (lcd8574_init (lcd8574_create 0x27 2 16) 3 0 []) \<and>
   fst (snd (snd (lcd8574_init (lcd8574_create 0x27 2 16) 3 0 []))) = lcd_2x16 \<and>
   written (snd (snd (snd (lcd8574_init (lcd8574_create 0x27 2 16) 3 0 [])))) =
     [0x00,
      0x3C, 0x38, 0x3C, 0x38, 0x3C, 0x38, 0x2C, 0x28,
      0x2C, 0x28, 0x8C, 0x88,
      0x0C, 0x08, 0x1C, 0x18,
      0x0C, 0x08, 0xCC, 0xC8]"
proof -
  have p: "(0::int) \<le> 3" "(0::int) \<le> 0" by simp_all
  note r = init_success_sequence
    [OF p, where self = "lcd8574_create 0x27 2 16" and os_error = "[]"]
  from r have "fst (lcd8574_init (lcd8574_create 0x27 2 16) 3 0 [])" by simp
  moreover from r
  have "fst (snd (snd (lcd8574_init (lcd8574_create 0x27 2 16) 3 0 []))) = lcd_2x16"
    by (simp add: lcd8574_create_def lcd_2x16_def)
  moreover
  have "written (snd (snd (snd (lcd8574_init (lcd8574_create 0x27 2 16) 3 0 [])))) =
     [0x00,
      0x3C, 0x38, 0x3C, 0x38, 0x3C, 0x38, 0x2C, 0x28,
      0x2C, 0x28, 0x8C, 0x88,
      0x0C, 0x08, 0x1C, 0x18,
      0x0C, 0x08, 0xCC, 0xC8]"
    by (simp add: conjunct2 [OF r])
  ultimately show ?thesis using p by simp
qed

lemma init_failure_keeps_ready:
  "\<not> fst (lcd8574_init self open_ret ioctl_ret os_error) \<Longrightarrow>
   ready (fst (snd (snd (lcd8574_init self open_ret ioctl_ret os_error)))) = ready self"
  by (simp add: lcd8574_init_def Let_def split: if_splits)

text \<open>
  C7, as the code has it. When \<open>open\<close> succeeds and the slave-address \<open>ioctl\<close> fails,
  \<open>lcd8574_init\<close> returns false, stores the message \<open>Can't intialize I2C device: \<close>
  followed by the text of \<open>strerror (errno)\<close>, and its whole I/O is the open and the ioctl:
  no byte is written to the channel. Of the object it changes \<open>fd\<close> only; \<open>ready\<close> is left
  as it was, for every controller, so it is still false on one that was not ready and is
  not cleared on one that was.
\<close>

theorem init_bind_failure:
  assumes "0 \<le> open_ret" and "ioctl_ret < 0"
  shows "lcd8574_init self open_ret ioctl_ret os_error =
     (False, Some (''Can't intialize I2C device: '' @ os_error), self\<lparr>fd := open_ret\<rparr>,
      [Open ''/dev/i2c-1'', Ioctl open_ret (i2c_addr self)]) \<and>
     ready (fst (snd (snd (lcd8574_init self open_ret ioctl_ret os_error)))) = ready self \<and>
     written (snd (snd (snd (lcd8574_init self open_ret ioctl_ret os_error)))) = []"
  using assms by (simp add: lcd8574_init_def I2C_DEV_def)

theorem init_bind_failure_witness:
  "(0::int) \<le> 3 \<and> (- 1::int) < 0 \<and>
   lcd8574_init (lcd8574_create 0x27 2 16) 3 (- 1) ''No such device or address'' =
     (False, Some ''Can't intialize I2C device: No such device or address'',
      \<lparr>i2c_addr = 0x27, fd = 3, rows = 2, cols = 16, ready = False\<rparr>,
      [Open ''/dev/i2c-1'', Ioctl 3 0x27]) \<and>
   \<not> ready (fst (snd (snd
     (lcd8574_init (lcd8574_create 0x27 2 16) 3 (- 1) ''No such device or address''))))"
proof -
  have p: "(0::int) \<le> 3" "(- 1::int) < 0" by simp_all
  note r = init_bind_failure
    [OF p, where self = "lcd8574_create 0x27 2 16"
       and os_error = "''No such device or address''"]
  have "lcd8574_init (lcd8574_create 0x27 2 16) 3 (- 1) ''No such device or address'' =
     (False, Some ''Can't intialize I2C device: No such device or address'',
      \<lparr>i2c_addr = 0x27, fd = 3, rows = 2, cols = 16, ready = False\<rparr>,
      [Open ''/dev/i2c-1'', Ioctl 3 0x27])"
    using conjunct1 [OF r] by (simp add: lcd8574_create_def)
  moreover
  have "\<not> ready (fst (snd (snd
     (lcd8574_init (lcd8574_create 0x27 2 16) 3 (- 1) ''No such device or address''))))"
    using conjunct1 [OF conjunct2 [OF r]] by (simp add: lcd8574_create_def)
  ultimately show ?thesis using p by simp
qed

text \<open>
  C7, as stated for every controller, fails in its \<open>ready\<close> part: \<open>lcd8574_init\<close> never
  assigns \<open>FALSE\<close> to \<open>ready\<close>. Called on the ready 2 x 16 controller with \<open>open\<close>
  returning 4 and the \<open>ioctl\<close> failing, it returns false and the object still has
  \<open>ready\<close> set.
\<close>

theorem init_bind_failure_ready_counterexample:
  "\<not> fst (lcd8574_init lcd_2x16 4 (- 1) ''No such device or address'') \<and>
   ready (fst (snd (snd (lcd8574_init lcd_2x16 4 (- 1) ''No such device or address'')))) \<and>
   fd (fst (snd (snd (lcd8574_init lcd_2x16 4 (- 1) ''No such device or address'')))) = 4"
  by (simp add: lcd8574_init_def lcd_2x16_def)

subsection \<open>Teardown\<close>

lemma uninit_not_ready: "\<not> ready (fst (lcd8574_uninit self))"
  by (simp add: lcd8574_uninit_def)

lemma uninit_never_initialised:
  "lcd8574_uninit (lcd8574_create a r c) = (lcd8574_create a r c, [])"
  by (simp add: lcd8574_uninit_def lcd8574_create_def)

text \<open>
  C8 at the failing input: create, a successful init with descriptor 3, then uninit
  twice. \<open>lcd8574_uninit\<close> closes \<open>fd\<close> without resetting the field to -1, so the second
  call finds \<open>fd >= 0\<close> again and closes descriptor 3 a second time.
\<close>

theorem uninit_twice_closes_twice:
  "fst (snd (snd (lcd8574_init (lcd8574_create 0x27 2 16) 3 0 []))) = lcd_2x16 \<and>
   lcd8574_uninit lcd_2x16 = (lcd_2x16\<lparr>ready := False\<rparr>, [Close 3]) \<and>
   lcd8574_uninit (fst (lcd8574_uninit lcd_2x16)) = (lcd_2x16\<lparr>ready := False\<rparr>, [Close 3])"
  by (simp add: lcd8574_init_def lcd8574_create_def lcd8574_uninit_def lcd_2x16_def Let_def)

text \<open>
  C9 at two failing inputs. After create and an init whose \<open>open\<close> returns 3 and whose
  \<open>ioctl\<close> fails, and after create, a successful init and uninit, the object has
  \<open>fd = 3\<close>, a valid descriptor value, while \<open>ready\<close> is false.
\<close>

theorem fd_valid_while_not_ready:
  "fd (fst (snd (snd (lcd8574_init (lcd8574_create 0x27 2 16) 3 (- 1) [])))) = 3 \<and>
   \<not> ready (fst (snd (snd (lcd8574_init (lcd8574_create 0x27 2 16) 3 (- 1) [])))) \<and>
   fd (fst (lcd8574_uninit
     (fst (snd (snd (lcd8574_init (lcd8574_create 0x27 2 16) 3 0 [])))))) = 3 \<and>
   \<not> ready (fst (lcd8574_uninit
     (fst (snd (snd (lcd8574_init (lcd8574_create 0x27 2 16) 3 0 []))))))"
  by (simp add: lcd8574_init_def lcd8574_create_def lcd8574_uninit_def Let_def)

subsection \<open>The loop of write_string_at\<close>

lemma set_addr_bytes:
  "(word_of_int (CMD_SET_DDRAM_ADDR OR (0 * LCD_CHARS_PER_ROW + 0)) :: BYTE) = 0x80"
  "(word_of_int (CMD_SET_DDRAM_ADDR OR ((0 + 1) * LCD_CHARS_PER_ROW)) :: BYTE) = 0xC0"
  "(word_of_int (CMD_SET_DDRAM_ADDR OR (1 * LCD_CHARS_PER_ROW + 0)) :: BYTE) = 0xC0"
  "(word_of_int (CMD_SET_DDRAM_ADDR OR ((1 + 1) * LCD_CHARS_PER_ROW)) :: BYTE) = 0x80"
  by (simp_all add: cmd_defs)

text \<open>Characters that stay inside the row are sent one after the other.\<close>

lemma loop_within_row:
  "0 \<notin> set xs \<Longrightarrow> row < rows self \<Longrightarrow> col + int (length xs) < cols self \<Longrightarrow>
   lcd8574_write_string_at_loop self row col (xs @ rest) wrap =
     concat (map (lcd8574_send_byte self True) xs) @
     lcd8574_write_string_at_loop self row (col + int (length xs)) rest wrap"
proof (induction xs arbitrary: col)
  case Nil
  then show ?case by simp
next
  case (Cons x xs)
  from Cons.prems have x: "x \<noteq> 0" and xs: "0 \<notin> set xs" by auto
  from Cons.prems have c: "col < cols self" "\<not> cols self \<le> col + 1"
    and c': "(col + 1) + int (length xs) < cols self" by auto
  have step: "lcd8574_write_string_at_loop self row col ((x # xs) @ rest) wrap =
        lcd8574_send_byte self True x @
        lcd8574_write_string_at_loop self row (col + 1) (xs @ rest) wrap"
    using x c Cons.prems(2) by (simp add: Let_def)
  have ih: "lcd8574_write_string_at_loop self row (col + 1) (xs @ rest) wrap =
     concat (map (lcd8574_send_byte self True) xs) @
     lcd8574_write_string_at_loop self row (col + 1 + int (length xs)) rest wrap"
    using Cons.IH [OF xs Cons.prems(2) c'] .
  have idx: "col + 1 + int (length xs) = col + int (length (x # xs))" by simp
  show ?case unfolding step ih idx by simp
qed

text \<open>The character that fills the row is followed at once by the next row's address.\<close>

lemma loop_last_of_row:
  "ch \<noteq> 0 \<Longrightarrow> row < rows self \<Longrightarrow> col < cols self \<Longrightarrow> cols self \<le> col + 1 \<Longrightarrow>
   lcd8574_write_string_at_loop self row col (ch # rest) True =
     lcd8574_send_byte self True ch @
     lcd8574_send_byte self False
       (word_of_int (CMD_SET_DDRAM_ADDR OR ((row + 1) * LCD_CHARS_PER_ROW))) @
     lcd8574_write_string_at_loop self (row + 1) 0 rest True"
  by (simp add: Let_def)

lemma loop_fill_row:
  assumes "0 \<notin> set xs" and "row < rows self" and "col < cols self"
    and "int (length xs) = cols self - col"
  shows "lcd8574_write_string_at_loop self row col (xs @ rest) True =
     concat (map (lcd8574_send_byte self True) xs) @
     lcd8574_send_byte self False
       (word_of_int (CMD_SET_DDRAM_ADDR OR ((row + 1) * LCD_CHARS_PER_ROW))) @
     lcd8574_write_string_at_loop self (row + 1) 0 rest True"
proof -
  from assms have "xs \<noteq> []" by auto
  then obtain ys y where xs: "xs = ys @ [y]" by (metis rev_exhaust)
  from assms xs have y: "y \<noteq> 0" and ys: "0 \<notin> set ys" by auto
  from assms xs have len: "col + int (length ys) < cols self"
    and last: "cols self \<le> (col + int (length ys)) + 1" by auto
  have "lcd8574_write_string_at_loop self row col (ys @ (y # rest)) True =
        concat (map (lcd8574_send_byte self True) ys) @
        lcd8574_write_string_at_loop self row (col + int (length ys)) (y # rest) True"
    by (rule loop_within_row [OF ys assms(2) len])
  also have "lcd8574_write_string_at_loop self row (col + int (length ys)) (y # rest) True =
     lcd8574_send_byte self True y @
     lcd8574_send_byte self False
       (word_of_int (CMD_SET_DDRAM_ADDR OR ((row + 1) * LCD_CHARS_PER_ROW))) @
     lcd8574_write_string_at_loop self (row + 1) 0 rest True"
    by (rule loop_last_of_row [OF y assms(2) len last])
  finally show ?thesis by (simp add: xs)
qed

lemma loop_stops:
  "rows self \<le> row \<or> cols self \<le> col \<or> s = [] \<or> hd s = 0 \<Longrightarrow>
   lcd8574_write_string_at_loop self row col s wrap = []"
  by (cases s) auto

text \<open>Without wrapping the loop sends the characters up to the end of the row.\<close>

lemma loop_no_wrap:
  "row < rows self \<Longrightarrow>
   lcd8574_write_string_at_loop self row col s False =
     concat (map (lcd8574_send_byte self True)
       (take (nat (cols self - col)) (takeWhile (\<lambda>b. b \<noteq> 0) s)))"
proof (induction s arbitrary: col)
  case Nil
  then show ?case by simp
next
  case (Cons ch s)
  show ?case
  proof (cases "ch \<noteq> 0 \<and> col < cols self")
    case True
    then have n: "nat (cols self - col) = Suc (nat (cols self - (col + 1)))" by auto
    show ?thesis using True Cons.prems Cons.IH [OF Cons.prems, of "col + 1"]
      by (simp add: Let_def n)
  next
    case False
    then show ?thesis by auto
  qed
qed

lemma wrap_cols_plus_one:
  assumes "0 \<notin> set s" and "rows self = 2" and "2 \<le> cols self"
    and "int (length s) = cols self + 1"
  shows "lcd8574_write_string_at self 0 0 s True =
     lcd8574_send_byte self False 0x80 @
     concat (map (lcd8574_send_byte self True) (butlast s)) @
     lcd8574_send_byte self False 0xC0 @
     lcd8574_send_byte self True (last s)"
proof -
  from assms have "s \<noteq> []" by auto
  then obtain xs z where s: "s = xs @ [z]" by (metis rev_exhaust)
  from assms s have xs: "0 \<notin> set xs" and z: "z \<noteq> 0"
    and len: "int (length xs) = cols self - 0" by auto
  have r0: "0 < rows self" and c0: "0 < cols self" using assms by auto
  have fill: "lcd8574_write_string_at_loop self 0 0 (xs @ [z]) True =
     concat (map (lcd8574_send_byte self True) xs) @
     lcd8574_send_byte self False 0xC0 @
     lcd8574_write_string_at_loop self (0 + 1) 0 [z] True"
    using loop_fill_row [OF xs r0 c0 len, of "[z]"] by (simp only: set_addr_bytes)
  have "lcd8574_write_string_at_loop self (0 + 1) 0 [z] True = lcd8574_send_byte self True z"
    using z assms(2,3) by (simp add: Let_def)
  with fill have "lcd8574_write_string_at_loop self 0 0 (xs @ [z]) True =
     concat (map (lcd8574_send_byte self True) xs) @
     lcd8574_send_byte self False 0xC0 @ lcd8574_send_byte self True z"
    by simp
  moreover have "lcd8574_write_string_at self 0 0 (xs @ [z]) True =
     lcd8574_send_byte self False 0x80 @ lcd8574_write_string_at_loop self 0 0 (xs @ [z]) True"
    using r0 c0 by (simp add: lcd8574_write_string_at_def cmd_defs)
  ultimately show ?thesis by (simp add: s)
qed

lemma write_char_at_row_1:
  assumes "1 < rows self" and "0 < cols self"
  shows "lcd8574_write_char_at self 1 0 c =
     lcd8574_send_byte self False 0xC0 @ lcd8574_send_byte self True c"
  using assms by (simp add: lcd8574_write_char_at_def cmd_defs)

lemma no_wrap_row_full:
  assumes "0 \<notin> set xs" and "row < rows self" and "col < cols self"
    and "int (length xs) = cols self - col"
  shows "lcd8574_write_string_at self row col (xs @ rest) False =
     lcd8574_send_byte self False
       (word_of_int (CMD_SET_DDRAM_ADDR OR (row * LCD_CHARS_PER_ROW + col))) @
     concat (map (lcd8574_send_byte self True) xs)"
proof -
  have tw: "takeWhile (\<lambda>b. b \<noteq> 0) (xs @ rest) = xs @ takeWhile (\<lambda>b. b \<noteq> 0) rest"
    using assms(1) by (intro takeWhile_append2) auto
  have n: "nat (cols self - col) = length xs" using assms(4) by simp
  show ?thesis
    using assms(2,3) by (simp add: lcd8574_write_string_at_def loop_no_wrap tw n)
qed

lemma wrap_row_full_last:
  assumes "0 \<notin> set xs" and "row < rows self" and "col < cols self"
    and "int (length xs) = cols self - col"
    and "rest = [] \<or> rows self \<le> row + 1"
  shows "lcd8574_write_string_at self row col (xs @ rest) True =
     lcd8574_send_byte self False
       (word_of_int (CMD_SET_DDRAM_ADDR OR (row * LCD_CHARS_PER_ROW + col))) @
     concat (map (lcd8574_send_byte self True) xs) @
     lcd8574_send_byte self False
       (word_of_int (CMD_SET_DDRAM_ADDR OR ((row + 1) * LCD_CHARS_PER_ROW)))"
proof -
  have "lcd8574_write_string_at_loop self (row + 1) 0 rest True = []"
    using assms(5) by (intro loop_stops) auto
  then show ?thesis
    using assms(2,3) loop_fill_row [OF assms(1-4), of rest]
    by (simp add: lcd8574_write_string_at_def)
qed

lemma wrap_two_rows_full:
  assumes "0 \<notin> set s" and "rows self = 2" and "0 < cols self"
    and "int (length s) = 2 * cols self"
  shows "lcd8574_write_string_at self 0 0 s True =
     lcd8574_send_byte self False 0x80 @
     concat (map (lcd8574_send_byte self True) (take (nat (cols self)) s)) @
     lcd8574_send_byte self False 0xC0 @
     concat (map (lcd8574_send_byte self True) (drop (nat (cols self)) s)) @
     lcd8574_send_byte self False (word_of_int (CMD_SET_DDRAM_ADDR OR (2 * LCD_CHARS_PER_ROW)))"
proof -
  define xs where "xs = take (nat (cols self)) s"
  define ys where "ys = drop (nat (cols self)) s"
  have s: "s = xs @ ys" by (simp add: xs_def ys_def)
  have xs0: "0 \<notin> set xs" and ys0: "0 \<notin> set ys"
    using assms(1) by (auto simp add: xs_def ys_def dest: in_set_takeD in_set_dropD)
  have lx: "int (length xs) = cols self - 0" and ly: "int (length ys) = cols self - 0"
    using assms(3,4) by (auto simp add: xs_def ys_def)
  have r0: "0 < rows self" and r1: "0 + 1 < rows self" using assms(2) by auto
  have first: "lcd8574_write_string_at_loop self 0 0 (xs @ ys) True =
     concat (map (lcd8574_send_byte self True) xs) @
     lcd8574_send_byte self False 0xC0 @
     lcd8574_write_string_at_loop self (0 + 1) 0 ys True"
    using loop_fill_row [OF xs0 r0 assms(3) lx, of ys] by (simp only: set_addr_bytes)
  have second: "lcd8574_write_string_at_loop self (0 + 1) 0 (ys @ []) True =
     concat (map (lcd8574_send_byte self True) ys) @
     lcd8574_send_byte self False
       (word_of_int (CMD_SET_DDRAM_ADDR OR ((0 + 1 + 1) * LCD_CHARS_PER_ROW))) @
     lcd8574_write_string_at_loop self (0 + 1 + 1) 0 [] True"
    by (rule loop_fill_row [OF ys0 r1 assms(3) ly])
  have start: "lcd8574_write_string_at self 0 0 (xs @ ys) True =
     lcd8574_send_byte self False 0x80 @ lcd8574_write_string_at_loop self 0 0 (xs @ ys) True"
    using r0 assms(3) by (simp add: lcd8574_write_string_at_def cmd_defs)
  show ?thesis
    unfolding s start first using second by (simp add: xs_def ys_def)
qed

subsection \<open>Wrapping onto the second row\<close>

text \<open>
  C4, as the code has it. On a controller with two rows and at least two columns,
  \<open>write_string_at (0, 0, s, wrap = true)\<close> with \<open>s\<close> of exactly \<open>cols + 1\<close> characters
  is: the set-address command for address 0 (\<open>0x80\<close>), the first \<open>cols\<close> characters, the
  set-address command for address 64 (\<open>0x80 | 64 = 0xC0\<close>) and the last character; the
  last two are exactly what \<open>write_char_at (1, 0, last character)\<close> sends. With
  \<open>wrap = false\<close>, from any position inside the bounds, characters \<open>xs\<close> that fill the
  row up to column \<open>cols\<close> are sent and whatever follows them in the string (\<open>rest\<close>)
  causes no further I/O.
\<close>

theorem write_string_at_cols_plus_one:
  "(0 \<notin> set s \<and> rows self = 2 \<and> 2 \<le> cols self \<and> int (length s) = cols self + 1 \<longrightarrow>
      lcd8574_write_string_at self 0 0 s True =
        lcd8574_send_byte self False 0x80 @
        concat (map (lcd8574_send_byte self True) (butlast s)) @
        lcd8574_send_byte self False 0xC0 @
        lcd8574_send_byte self True (last s) \<and>
      lcd8574_send_byte self False 0xC0 @ lcd8574_send_byte self True (last s) =
        lcd8574_write_char_at self 1 0 (last s)) \<and>
   (0 \<notin> set xs \<and> row < rows self \<and> col < cols self \<and>
    int (length xs) = cols self - col \<longrightarrow>
      lcd8574_write_string_at self row col (xs @ rest) False =
        lcd8574_send_byte self False
          (word_of_int (CMD_SET_DDRAM_ADDR OR (row * LCD_CHARS_PER_ROW + col))) @
        concat (map (lcd8574_send_byte self True) xs))"
proof (intro conjI impI)
  assume h: "0 \<notin> set s \<and> rows self = 2 \<and> 2 \<le> cols self \<and> int (length s) = cols self + 1"
  then show "lcd8574_write_string_at self 0 0 s True =
        lcd8574_send_byte self False 0x80 @
        concat (map (lcd8574_send_byte self True) (butlast s)) @
        lcd8574_send_byte self False 0xC0 @
        lcd8574_send_byte self True (last s)"
    by (intro wrap_cols_plus_one) auto
  from h show "lcd8574_send_byte self False 0xC0 @ lcd8574_send_byte self True (last s) =
        lcd8574_write_char_at self 1 0 (last s)"
    by (intro write_char_at_row_1 [symmetric]) auto
next
  assume "0 \<notin> set xs \<and> row < rows self \<and> col < cols self \<and>
    int (length xs) = cols self - col"
  then show "lcd8574_write_string_at self row col (xs @ rest) False =
        lcd8574_send_byte self False
          (word_of_int (CMD_SET_DDRAM_ADDR OR (row * LCD_CHARS_PER_ROW + col))) @
        concat (map (lcd8574_send_byte self True) xs)"
    by (intro no_wrap_row_full) auto
qed

theorem write_string_at_cols_plus_one_witness:
  "written (lcd8574_write_string_at
      \<lparr>i2c_addr = 0x27, fd = 3, rows = 2, cols = 2, ready = True\<rparr> 0 0
      [0x61, 0x62, 0x63] True) =
     [0x8C, 0x88, 0x0C, 0x08,  0x6D, 0x69, 0x1D, 0x19,  0x6D, 0x69, 0x2D, 0x29,
      0xCC, 0xC8, 0x0C, 0x08,  0x6D, 0x69, 0x3D, 0x39] \<and>
   written (lcd8574_write_string_at
      \<lparr>i2c_addr = 0x27, fd = 3, rows = 2, cols = 2, ready = True\<rparr> 0 0
      ([0x61, 0x62] @ [0x63]) False) =
     [0x8C, 0x88, 0x0C, 0x08,  0x6D, 0x69, 0x1D, 0x19,  0x6D, 0x69, 0x2D, 0x29]"
proof -
  define c where "c = \<lparr>i2c_addr = 0x27, fd = 3, rows = 2, cols = 2, ready = True\<rparr>"
  note r = write_string_at_cols_plus_one
    [where self = c and s = "[0x61, 0x62, 0x63]" and xs = "[0x61, 0x62]"
       and row = 0 and col = 0 and rest = "[0x63]"]
  have h1: "(0::BYTE) \<notin> set [0x61, 0x62, 0x63] \<and> rows c = 2 \<and> 2 \<le> cols c \<and>
      int (length [0x61, 0x62, 0x63 :: BYTE]) = cols c + 1"
    by (simp add: c_def)
  have h2: "(0::BYTE) \<notin> set [0x61, 0x62] \<and> 0 < rows c \<and> 0 < cols c \<and>
      int (length [0x61, 0x62 :: BYTE]) = cols c - 0"
    by (simp add: c_def)
  have a: "lcd8574_write_string_at c 0 0 [0x61, 0x62, 0x63] True =
        lcd8574_send_byte c False 0x80 @
        concat (map (lcd8574_send_byte c True) (butlast [0x61, 0x62, 0x63])) @
        lcd8574_send_byte c False 0xC0 @
        lcd8574_send_byte c True (last [0x61, 0x62, 0x63])"
    using conjunct1 [OF r] h1 by blast
  have b: "lcd8574_write_string_at c 0 0 ([0x61, 0x62] @ [0x63]) False =
        lcd8574_send_byte c False
          (word_of_int (CMD_SET_DDRAM_ADDR OR (0 * LCD_CHARS_PER_ROW + 0))) @
        concat (map (lcd8574_send_byte c True) [0x61, 0x62])"
    using conjunct2 [OF r] h2 by blast
  show ?thesis
    unfolding c_def [symmetric] a b
    by (simp add: c_def lcd8574_send_byte_def lcd8574_send_4_bits_def
        lcd8574_set_bit_value_def Let_def pin_defs cmd_defs)
qed

text \<open>
  C4, as stated for every two-row controller, fails when \<open>cols = 1\<close>: the string
  \<open>"ab"\<close> has \<open>cols + 1\<close> characters, and the second character fills row 1 as well, so a
  third set-address command (computed from row 2) follows it.
\<close>

theorem write_string_at_cols_plus_one_counterexample:
  "lcd8574_write_string_at \<lparr>i2c_addr = 0x27, fd = 3, rows = 2, cols = 1, ready = True\<rparr>
      0 0 [0x61, 0x62] True =
     lcd8574_send_byte \<lparr>i2c_addr = 0x27, fd = 3, rows = 2, cols = 1, ready = True\<rparr> False 0x80 @
     lcd8574_send_byte \<lparr>i2c_addr = 0x27, fd = 3, rows = 2, cols = 1, ready = True\<rparr> True 0x61 @
     lcd8574_send_byte \<lparr>i2c_addr = 0x27, fd = 3, rows = 2, cols = 1, ready = True\<rparr> False 0xC0 @
     lcd8574_send_byte \<lparr>i2c_addr = 0x27, fd = 3, rows = 2, cols = 1, ready = True\<rparr> True 0x62 @
     lcd8574_send_byte \<lparr>i2c_addr = 0x27, fd = 3, rows = 2, cols = 1, ready = True\<rparr> False
       (word_of_int (CMD_SET_DDRAM_ADDR OR (2 * LCD_CHARS_PER_ROW))) \<and>
   lcd8574_write_string_at \<lparr>i2c_addr = 0x27, fd = 3, rows = 2, cols = 1, ready = True\<rparr>
      0 0 [0x61, 0x62] True \<noteq>
     lcd8574_send_byte \<lparr>i2c_addr = 0x27, fd = 3, rows = 2, cols = 1, ready = True\<rparr> False 0x80 @
     lcd8574_send_byte \<lparr>i2c_addr = 0x27, fd = 3, rows = 2, cols = 1, ready = True\<rparr> True 0x61 @
     lcd8574_send_byte \<lparr>i2c_addr = 0x27, fd = 3, rows = 2, cols = 1, ready = True\<rparr> False 0xC0 @
     lcd8574_send_byte \<lparr>i2c_addr = 0x27, fd = 3, rows = 2, cols = 1, ready = True\<rparr> True 0x62 \<and>
   length (written (lcd8574_write_string_at
      \<lparr>i2c_addr = 0x27, fd = 3, rows = 2, cols = 1, ready = True\<rparr> 0 0 [0x61, 0x62] True)) = 20"
  by (simp add: io_defs pin_defs cmd_defs)

text \<open>
  C10. With \<open>wrap = true\<close>, when the characters \<open>xs\<close> written from an in-bounds position
  fill the row exactly, the set-address command for the next row, address
  \<open>(row + 1) * 64\<close>, is sent right after the last of them, and it ends the output when
  nothing follows in the string or when the next row is past the last one. For a string
  of exactly \<open>2 * cols\<close> characters written at (0, 0) on a two-row controller the output
  is the address command \<open>0x80\<close>, the first \<open>cols\<close> characters, the address command
  \<open>0xC0\<close>, the other \<open>cols\<close> characters and a trailing set-address command computed from
  row 2, address 128; as a byte that command is \<open>0x80\<close>.
\<close>

theorem write_string_at_trailing_set_address:
  "(0 \<notin> set xs \<and> row < rows self \<and> col < cols self \<and>
    int (length xs) = cols self - col \<and> (rest = [] \<or> rows self \<le> row + 1) \<longrightarrow>
      lcd8574_write_string_at self row col (xs @ rest) True =
        lcd8574_send_byte self False
          (word_of_int (CMD_SET_DDRAM_ADDR OR (row * LCD_CHARS_PER_ROW + col))) @
        concat (map (lcd8574_send_byte self True) xs) @
        lcd8574_send_byte self False
          (word_of_int (CMD_SET_DDRAM_ADDR OR ((row + 1) * LCD_CHARS_PER_ROW)))) \<and>
   (0 \<notin> set s \<and> rows self = 2 \<and> 0 < cols self \<and> int (length s) = 2 * cols self \<longrightarrow>
      lcd8574_write_string_at self 0 0 s True =
        lcd8574_send_byte self False 0x80 @
        concat (map (lcd8574_send_byte self True) (take (nat (cols self)) s)) @
        lcd8574_send_byte self False 0xC0 @
        concat (map (lcd8574_send_byte self True) (drop (nat (cols self)) s)) @
        lcd8574_send_byte self False
          (word_of_int (CMD_SET_DDRAM_ADDR OR (2 * LCD_CHARS_PER_ROW)))) \<and>
   (word_of_int (CMD_SET_DDRAM_ADDR OR (2 * LCD_CHARS_PER_ROW)) :: BYTE) = 0x80"
proof (intro conjI impI)
  assume "0 \<notin> set xs \<and> row < rows self \<and> col < cols self \<and>
    int (length xs) = cols self - col \<and> (rest = [] \<or> rows self \<le> row + 1)"
  then show "lcd8574_write_string_at self row col (xs @ rest) True =
        lcd8574_send_byte self False
          (word_of_int (CMD_SET_DDRAM_ADDR OR (row * LCD_CHARS_PER_ROW + col))) @
        concat (map (lcd8574_send_byte self True) xs) @
        lcd8574_send_byte self False
          (word_of_int (CMD_SET_DDRAM_ADDR OR ((row + 1) * LCD_CHARS_PER_ROW)))"
    by (intro wrap_row_full_last) auto
next
  assume "0 \<notin> set s \<and> rows self = 2 \<and> 0 < cols self \<and> int (length s) = 2 * cols self"
  then show "lcd8574_write_string_at self 0 0 s True =
        lcd8574_send_byte self False 0x80 @
        concat (map (lcd8574_send_byte self True) (take (nat (cols self)) s)) @
        lcd8574_send_byte self False 0xC0 @
        concat (map (lcd8574_send_byte self True) (drop (nat (cols self)) s)) @
        lcd8574_send_byte self False
          (word_of_int (CMD_SET_DDRAM_ADDR OR (2 * LCD_CHARS_PER_ROW)))"
    by (intro wrap_two_rows_full) auto
next
  show "(word_of_int (CMD_SET_DDRAM_ADDR OR (2 * LCD_CHARS_PER_ROW)) :: BYTE) = 0x80"
    by (simp add: cmd_defs)
qed

theorem write_string_at_trailing_set_address_witness:
  "written (lcd8574_write_string_at
      \<lparr>i2c_addr = 0x27, fd = 3, rows = 2, cols = 2, ready = True\<rparr> 1 0
      ([0x63, 0x64] @ []) True) =
     [0xCC, 0xC8, 0x0C, 0x08,  0x6D, 0x69, 0x3D, 0x39,  0x6D, 0x69, 0x4D, 0x49,
      0x8C, 0x88, 0x0C, 0x08] \<and>
   written (lcd8574_write_string_at
      \<lparr>i2c_addr = 0x27, fd = 3, rows = 2, cols = 2, ready = True\<rparr> 0 0
      [0x61, 0x62, 0x63, 0x64] True) =
     [0x8C, 0x88, 0x0C, 0x08,  0x6D, 0x69, 0x1D, 0x19,  0x6D, 0x69, 0x2D, 0x29,
      0xCC, 0xC8, 0x0C, 0x08,  0x6D, 0x69, 0x3D, 0x39,  0x6D, 0x69, 0x4D, 0x49,
      0x8C, 0x88, 0x0C, 0x08]"
proof -
  define c where "c = \<lparr>i2c_addr = 0x27, fd = 3, rows = 2, cols = 2, ready = True\<rparr>"
  note r = write_string_at_trailing_set_address
    [where self = c and s = "[0x61, 0x62, 0x63, 0x64]" and xs = "[0x63, 0x64]"
       and row = 1 and col = 0 and rest = "[]"]
  have h1: "(0::BYTE) \<notin> set [0x63, 0x64] \<and> 1 < rows c \<and> 0 < cols c \<and>
      int (length [0x63, 0x64 :: BYTE]) = cols c - 0 \<and>
      (([] :: BYTE list) = [] \<or> rows c \<le> 1 + 1)"
    by (simp add: c_def)
  have h2: "(0::BYTE) \<notin> set [0x61, 0x62, 0x63, 0x64] \<and> rows c = 2 \<and> 0 < cols c \<and>
      int (length [0x61, 0x62, 0x63, 0x64 :: BYTE]) = 2 * cols c"
    by (simp add: c_def)
  have a: "lcd8574_write_string_at c 1 0 ([0x63, 0x64] @ []) True =
        lcd8574_send_byte c False
          (word_of_int (CMD_SET_DDRAM_ADDR OR (1 * LCD_CHARS_PER_ROW + 0))) @
        concat (map (lcd8574_send_byte c True) [0x63, 0x64]) @
        lcd8574_send_byte c False
          (word_of_int (CMD_SET_DDRAM_ADDR OR ((1 + 1) * LCD_CHARS_PER_ROW)))"
    using conjunct1 [OF r] h1 by blast
  have b: "lcd8574_write_string_at c 0 0 [0x61, 0x62, 0x63, 0x64] True =
        lcd8574_send_byte c False 0x80 @
        concat (map (lcd8574_send_byte c True) (take (nat (cols c)) [0x61, 0x62, 0x63, 0x64])) @
        lcd8574_send_byte c False 0xC0 @
        concat (map (lcd8574_send_byte c True) (drop (nat (cols c)) [0x61, 0x62, 0x63, 0x64])) @
        lcd8574_send_byte c False
          (word_of_int (CMD_SET_DDRAM_ADDR OR (2 * LCD_CHARS_PER_ROW)))"
    using conjunct1 [OF conjunct2 [OF r]] h2 by blast
  show ?thesis
    unfolding c_def [symmetric] a b
    by (simp add: c_def lcd8574_send_byte_def lcd8574_send_4_bits_def
        lcd8574_set_bit_value_def Let_def pin_defs cmd_defs)
qed

end
